theory Spec2Isabelle
  imports Complex_Main "HOL-Library.List_Lexorder" "HOL-Library.Char_ord"
begin

section \<open>Values of the host language\<close>

text \<open>
  The performance layer is Python over an SQLite file. Finite floating-point numbers are
  modelled by the reals (rounding error of the machine arithmetic is outside the model).
  Where the source itself produces or tests a non-finite float (\<open>float("inf")\<close> in the
  profit factor, \<open>np.isnan\<close> in the trend classifier) the value is a \<open>pyfloat\<close>.
\<close>

datatype pyfloat = Fin real | PosInf | NegInf | NaN

text \<open>IEEE comparison as Python performs it: every comparison with NaN is false.\<close>

fun fl_less :: "pyfloat \<Rightarrow> pyfloat \<Rightarrow> bool" where
  "fl_less NaN _ = False"
| "fl_less _ NaN = False"
| "fl_less (Fin a) (Fin b) = (a < b)"
| "fl_less (Fin a) PosInf = True"
| "fl_less (Fin a) NegInf = False"
| "fl_less PosInf _ = False"
| "fl_less NegInf (Fin b) = True"
| "fl_less NegInf PosInf = True"
| "fl_less NegInf NegInf = False"

fun fl_le :: "pyfloat \<Rightarrow> pyfloat \<Rightarrow> bool" where
  "fl_le NaN _ = False"
| "fl_le _ NaN = False"
| "fl_le (Fin a) (Fin b) = (a \<le> b)"
| "fl_le (Fin a) PosInf = True"
| "fl_le (Fin a) NegInf = False"
| "fl_le PosInf PosInf = True"
| "fl_le PosInf _ = False"
| "fl_le NegInf _ = True"

fun isnan :: "pyfloat \<Rightarrow> bool" where
  "isnan NaN = True"
| "isnan _ = False"

datatype py_error = ValueError | TypeError

section \<open>Regime classification (core/performance/regime.py)\<close>

text \<open>
  \<open>np.percentile(a, q)\<close> with numpy's default linear interpolation: the array is
  sorted, the virtual index is \<open>(n - 1) * q / 100\<close>, and the result interpolates between
  the two neighbouring ranks. A percentile outside \<open>[0, 100]\<close> raises ValueError. numpy is
  a library, not code of the repository; \<open>classify_volatility\<close> only calls it on arrays of
  at least two elements (on the empty array numpy yields nan, which has no real
  counterpart, so the model reports an error there).
\<close>

definition percentile :: "real list \<Rightarrow> real \<Rightarrow> py_error + real" where
  "percentile a q =
     (if q < 0 \<or> 100 < q \<or> a = [] then Inl ValueError
      else
        let s = sort a;
            n = length s;
            vi = real (n - 1) * (q / 100);
            lo = nat \<lfloor>vi\<rfloor>;
            hi = min (lo + 1) (n - 1);
            g = vi - real lo
        in Inr (s ! lo + g * (s ! hi - s ! lo)))"

definition classify_volatility ::
  "real \<Rightarrow> real list \<Rightarrow> real \<Rightarrow> real \<Rightarrow> py_error + string" where
  "classify_volatility bb_width bb_width_history low_percentile high_percentile =
     (if bb_width_history = [] \<or> length bb_width_history < 2 then Inr ''unknown''
      else
        case percentile bb_width_history low_percentile of
          Inl e \<Rightarrow> Inl e
        | Inr low_threshold \<Rightarrow>
            (case percentile bb_width_history high_percentile of
               Inl e \<Rightarrow> Inl e
             | Inr high_threshold \<Rightarrow>
                 if bb_width < low_threshold then Inr ''low''
                 else if bb_width > high_threshold then Inr ''high''
                 else Inr ''medium''))"

text \<open>\<open>adx\<close> is \<open>None\<close> (absent) or a float.\<close>

definition classify_trend :: "pyfloat option \<Rightarrow> string" where
  "classify_trend adx =
     (case adx of
        None \<Rightarrow> ''unknown''
      | Some x \<Rightarrow>
          if isnan x then ''unknown''
          else if fl_less x (Fin 20) then ''ranging''
          else if fl_less x (Fin 30) then ''weak_trend''
          else ''strong_trend'')"

text \<open>\<open>classify_regime\<close> calls \<open>classify_volatility\<close> with the default percentiles 25 and 75.\<close>

definition classify_regime ::
  "real \<Rightarrow> real list \<Rightarrow> pyfloat option \<Rightarrow> py_error + (string \<rightharpoonup> string)" where
  "classify_regime bb_width bb_width_history adx =
     (case classify_volatility bb_width bb_width_history 25 75 of
        Inl e \<Rightarrow> Inl e
      | Inr vol \<Rightarrow>
          let trend = classify_trend adx;
              combined = vol @ ''_'' @ trend
          in Inr [''volatility'' \<mapsto> vol, ''trend'' \<mapsto> trend, ''combined'' \<mapsto> combined])"

section \<open>The persistent store (core/performance/database.py)\<close>

text \<open>
  One record per row of \<open>trade_log\<close>, with the columns of the schema in their order. A
  nullable column is an \<open>option\<close>. The surrogate key \<open>id\<close> is \<open>row_id\<close>. The column
  \<open>created_at\<close> (the wall clock at insertion) is never read by the code and is left out.
\<close>

record trade_row =
  row_id :: nat
  trade_id :: string
  pair :: string
  strategy :: string
  entry_time :: string
  entry_price :: real
  entry_rsi :: "real option"
  entry_tema :: "real option"
  entry_bb_percent :: "real option"
  entry_bb_width :: "real option"
  entry_adx :: "real option"
  entry_volatility_regime :: "string option"
  entry_trend_regime :: "string option"
  entry_regime :: "string option"
  exit_time :: "string option"
  exit_price :: "real option"
  exit_reason :: "string option"
  exit_rsi :: "real option"
  exit_tema :: "real option"
  exit_bb_percent :: "real option"
  exit_bb_width :: "real option"
  exit_adx :: "real option"
  exit_volatility_regime :: "string option"
  exit_trend_regime :: "string option"
  exit_regime :: "string option"
  pnl_absolute :: "real option"
  pnl_percent :: "real option"
  duration_minutes :: "real option"
  regime_changed :: "int option"

record snapshot_row =
  snap_id :: nat
  snap_timestamp :: string
  snap_pair :: string
  snap_volatility_regime :: "string option"
  snap_trend_regime :: "string option"
  snap_regime :: "string option"
  snap_bb_width :: "real option"
  snap_adx :: "real option"
  snap_rsi :: "real option"

text \<open>The two tables, each in insertion order.\<close>

record store =
  trade_log :: "trade_row list"
  regime_snapshots :: "snapshot_row list"

definition empty_store :: store where
  "empty_store = \<lparr>trade_log = [], regime_snapshots = []\<rparr>"

text \<open>
  \<open>INTEGER PRIMARY KEY AUTOINCREMENT\<close>: the new key is one more than the largest key the
  table has held. No operation deletes a row, so that is the largest key present.
\<close>

definition max_row_id :: "trade_row list \<Rightarrow> nat" where
  "max_row_id rows = fold (\<lambda>r m. max (row_id r) m) rows 0"

definition max_snap_id :: "snapshot_row list \<Rightarrow> nat" where
  "max_snap_id rows = fold (\<lambda>r m. max (snap_id r) m) rows 0"

section \<open>Trade identifiers\<close>

text \<open>
  \<open>trade_id\<close> is annotated \<open>str\<close>, but both writers pass it through \<open>str(...)\<close>, so a
  caller may hand over an integer as well. \<open>py_str\<close> is Python's \<open>str\<close> on those two
  kinds of value.
\<close>

datatype pyval = PStr string | PInt int

function str_nat :: "nat \<Rightarrow> string" where
  "str_nat n =
     (if n < 10 then [''0123456789'' ! n]
      else str_nat (n div 10) @ [''0123456789'' ! (n mod 10)])"
  by pat_completeness auto
termination
  by (relation "measure (\<lambda>n. n)") auto

declare str_nat.simps [simp del]

definition str_int :: "int \<Rightarrow> string" where
  "str_int i = (if i < 0 then CHR ''-'' # str_nat (nat (- i)) else str_nat (nat i))"

fun py_str :: "pyval \<Rightarrow> string" where
  "py_str (PStr s) = s"
| "py_str (PInt i) = str_int i"

section \<open>The trade context recorder (core/performance/trade\_logger.py)\<close>

text \<open>
  The indicator snapshot and the regime label are dictionaries read with \<open>.get\<close>: a
  missing key reads as \<open>None\<close>, which SQLite stores as NULL.
\<close>

type_synonym indicators = "string \<rightharpoonup> real"
type_synonym regime = "string \<rightharpoonup> string"

definition log_entry ::
  "store \<Rightarrow> pyval \<Rightarrow> string \<Rightarrow> string \<Rightarrow> string \<Rightarrow> real \<Rightarrow> indicators \<Rightarrow> regime
   \<Rightarrow> nat \<times> store" where
  "log_entry st tid pair' strategy' entry_time' entry_price' inds reg =
     (let lastrowid = Suc (max_row_id (trade_log st));
          row = \<lparr>row_id = lastrowid,
                 trade_id = py_str tid,
                 pair = pair',
                 strategy = strategy',
                 entry_time = entry_time',
                 entry_price = entry_price',
                 entry_rsi = inds ''rsi'',
                 entry_tema = inds ''tema'',
                 entry_bb_percent = inds ''bb_percent'',
                 entry_bb_width = inds ''bb_width'',
                 entry_adx = inds ''adx'',
                 entry_volatility_regime = reg ''volatility'',
                 entry_trend_regime = reg ''trend'',
                 entry_regime = reg ''combined'',
                 exit_time = None, exit_price = None, exit_reason = None,
                 exit_rsi = None, exit_tema = None, exit_bb_percent = None,
                 exit_bb_width = None, exit_adx = None,
                 exit_volatility_regime = None, exit_trend_regime = None,
                 exit_regime = None,
                 pnl_absolute = None, pnl_percent = None, duration_minutes = None,
                 regime_changed = None\<rparr>
      in (lastrowid, st\<lparr>trade_log := trade_log st @ [row]\<rparr>))"

text \<open>
  \<open>SELECT entry_regime FROM trade_log WHERE trade_id = ? ORDER BY id DESC LIMIT 1\<close>:
  the row of greatest key among those carrying the identifier, open or closed.
\<close>

fun select_latest :: "string \<Rightarrow> trade_row list \<Rightarrow> trade_row option" where
  "select_latest tid [] = None"
| "select_latest tid (r # rs) =
     (if trade_id r = tid then
        (case select_latest tid rs of
           None \<Rightarrow> Some r
         | Some r' \<Rightarrow> if row_id r' < row_id r then Some r else Some r')
      else select_latest tid rs)"

text \<open>
  The \<open>UPDATE ... WHERE trade_id = ? AND exit_time IS NULL\<close> of \<open>log_exit\<close>, on one row:
  a row that matches gets every exit column and the derived columns; any other row is
  left as it is.
\<close>

definition update_exit ::
  "string \<Rightarrow> string \<Rightarrow> real \<Rightarrow> string \<Rightarrow> indicators \<Rightarrow> regime \<Rightarrow> real \<Rightarrow> real \<Rightarrow> real \<Rightarrow> int
   \<Rightarrow> trade_row \<Rightarrow> trade_row" where
  "update_exit tid exit_time' exit_price' exit_reason' inds reg
      pnl_absolute' pnl_percent' duration_minutes' regime_changed' r =
     (if trade_id r = tid \<and> exit_time r = None then
        r\<lparr>exit_time := Some exit_time',
          exit_price := Some exit_price',
          exit_reason := Some exit_reason',
          exit_rsi := inds ''rsi'',
          exit_tema := inds ''tema'',
          exit_bb_percent := inds ''bb_percent'',
          exit_bb_width := inds ''bb_width'',
          exit_adx := inds ''adx'',
          exit_volatility_regime := reg ''volatility'',
          exit_trend_regime := reg ''trend'',
          exit_regime := reg ''combined'',
          pnl_absolute := Some pnl_absolute',
          pnl_percent := Some pnl_percent',
          duration_minutes := Some duration_minutes',
          regime_changed := Some regime_changed'\<rparr>
      else r)"

definition log_exit ::
  "store \<Rightarrow> pyval \<Rightarrow> string \<Rightarrow> real \<Rightarrow> string \<Rightarrow> indicators \<Rightarrow> regime \<Rightarrow> real \<Rightarrow> real
   \<Rightarrow> bool \<times> store" where
  "log_exit st tid exit_time' exit_price' exit_reason' inds reg entry_price' duration_minutes' =
     (let pnl_absolute' = exit_price' - entry_price';
          pnl_percent' = (if entry_price' \<noteq> 0 then (pnl_absolute' / entry_price') * 100 else 0)
      in case select_latest (py_str tid) (trade_log st) of
           None \<Rightarrow> (False, st)
         | Some row \<Rightarrow>
             let regime_changed' = (if entry_regime row \<noteq> reg ''combined'' then 1 else 0)
             in (True,
                 st\<lparr>trade_log :=
                      map (update_exit (py_str tid) exit_time' exit_price' exit_reason' inds reg
                             pnl_absolute' pnl_percent' duration_minutes' regime_changed')
                        (trade_log st)\<rparr>))"

definition log_regime_snapshot :: "store \<Rightarrow> string \<Rightarrow> string \<Rightarrow> regime \<Rightarrow> indicators \<Rightarrow> store" where
  "log_regime_snapshot st pair' timestamp' reg inds =
     st\<lparr>regime_snapshots := regime_snapshots st @
          [\<lparr>snap_id = Suc (max_snap_id (regime_snapshots st)),
            snap_timestamp = timestamp',
            snap_pair = pair',
            snap_volatility_regime = reg ''volatility'',
            snap_trend_regime = reg ''trend'',
            snap_regime = reg ''combined'',
            snap_bb_width = inds ''bb_width'',
            snap_adx = inds ''adx'',
            snap_rsi = inds ''rsi''\<rparr>]\<rparr>"

section \<open>The performance analyzer (core/performance/analyzer.py)\<close>

text \<open>
  Python's \<open>round(x, n)\<close>: to the nearest multiple of \<open>10^-n\<close>, a tie going to the even
  neighbour; an infinity or a NaN is returned as it is.
\<close>

definition round_half_even :: "real \<Rightarrow> int" where
  "round_half_even x =
     (let f = \<lfloor>x\<rfloor>; d = x - of_int f
      in if d < 1 / 2 then f else if 1 / 2 < d then f + 1 else if even f then f else f + 1)"

definition py_round :: "real \<Rightarrow> nat \<Rightarrow> real" where
  "py_round x n = of_int (round_half_even (x * 10 ^ n)) / 10 ^ n"

fun fl_round :: "pyfloat \<Rightarrow> nat \<Rightarrow> pyfloat" where
  "fl_round (Fin x) n = Fin (py_round x n)"
| "fl_round PosInf n = PosInf"
| "fl_round NegInf n = NegInf"
| "fl_round NaN n = NaN"

text \<open>
  The dictionary of \<open>_compute_summary\<close>, and the larger one of \<open>summary\<close>, which has the
  same keys and three more.
\<close>

record window_stats =
  total_trades :: nat
  win_rate :: real
  avg_win_pct :: real
  avg_loss_pct :: real
  expectancy_pct :: real
  profit_factor :: pyfloat

record summary_stats = window_stats +
  wins :: nat
  losses :: nat
  avg_duration_min :: real

text \<open>
  \<open>gross_wins / gross_losses if gross_losses > 0 else float("inf") if gross_wins > 0 else 0.0\<close>
\<close>

definition profit_factor_of :: "real \<Rightarrow> real \<Rightarrow> pyfloat" where
  "profit_factor_of gross_wins gross_losses =
     (if gross_losses > 0 then Fin (gross_wins / gross_losses)
      else if gross_wins > 0 then PosInf
      else Fin 0)"

text \<open>
  An optional filter argument is applied when it is truthy: neither \<open>None\<close> nor the empty
  string. The SQL comparison \<open>column = ?\<close> holds for a non-NULL column equal to the
  argument.
\<close>

definition truthy :: "string option \<Rightarrow> bool" where
  "truthy s = (case s of None \<Rightarrow> False | Some v \<Rightarrow> v \<noteq> [])"

definition is_closed :: "trade_row \<Rightarrow> bool" where
  "is_closed r = (exit_time r \<noteq> None)"

definition summary_rows :: "store \<Rightarrow> string option \<Rightarrow> string option \<Rightarrow> trade_row list" where
  "summary_rows st strategy' regime' =
     filter (\<lambda>r. is_closed r
                \<and> (if truthy strategy' then Some (strategy r) = strategy' else True)
                \<and> (if truthy regime' then entry_regime r = regime' else True))
       (trade_log st)"

text \<open>
  A closed row whose \<open>pnl_percent\<close> is NULL makes the comparison \<open>p > 0\<close> raise TypeError
  (\<open>those\<close> is \<open>None\<close> as soon as one element is).
\<close>

definition summary :: "store \<Rightarrow> string option \<Rightarrow> string option \<Rightarrow> py_error + summary_stats" where
  "summary st strategy' regime' =
     (let rows = summary_rows st strategy' regime' in
      if rows = [] then
        Inr \<lparr>total_trades = 0, win_rate = 0, avg_win_pct = 0, avg_loss_pct = 0,
             expectancy_pct = 0, profit_factor = Fin 0,
             wins = 0, losses = 0, avg_duration_min = 0\<rparr>
      else
        case those (map pnl_percent rows) of
          None \<Rightarrow> Inl TypeError
        | Some pnls \<Rightarrow>
            let durations = List.map_filter duration_minutes rows;
                wins' = filter (\<lambda>p. p > 0) pnls;
                losses' = filter (\<lambda>p. p \<le> 0) pnls;
                total = length pnls;
                win_count = length wins';
                loss_count = length losses';
                win_rate' = (if total > 0 then real win_count / real total else 0);
                avg_win = (if wins' \<noteq> [] then sum_list wins' / real (length wins') else 0);
                avg_loss = (if losses' \<noteq> [] then sum_list losses' / real (length losses') else 0);
                expectancy = (win_rate' * avg_win) + ((1 - win_rate') * avg_loss);
                gross_wins = sum_list wins';
                gross_losses = \<bar>sum_list losses'\<bar>;
                profit_factor' = profit_factor_of gross_wins gross_losses;
                avg_duration =
                  (if durations \<noteq> [] then sum_list durations / real (length durations) else 0)
            in Inr \<lparr>total_trades = total,
                    win_rate = py_round win_rate' 4,
                    avg_win_pct = py_round avg_win 4,
                    avg_loss_pct = py_round avg_loss 4,
                    expectancy_pct = py_round expectancy 4,
                    profit_factor = fl_round profit_factor' 4,
                    wins = win_count,
                    losses = loss_count,
                    avg_duration_min = py_round avg_duration 2\<rparr>)"

text \<open>
  \<open>by_regime\<close>: the distinct non-NULL entry regimes of the closed rows (of the strategy,
  when one is given), each mapped to its summary. The result is a dictionary; it is kept
  as the list of its items, whose keys are distinct.
\<close>

definition regime_names :: "store \<Rightarrow> string option \<Rightarrow> string list" where
  "regime_names st strategy' =
     remdups (List.map_filter entry_regime
       (filter (\<lambda>r. is_closed r
                  \<and> (if truthy strategy' then Some (strategy r) = strategy' else True))
          (trade_log st)))"

fun by_regime_loop ::
  "store \<Rightarrow> string option \<Rightarrow> string list \<Rightarrow> py_error + (string \<times> summary_stats) list" where
  "by_regime_loop st strategy' [] = Inr []"
| "by_regime_loop st strategy' (regime_name # rest) =
     (case summary st strategy' (Some regime_name) of
        Inl e \<Rightarrow> Inl e
      | Inr sm \<Rightarrow>
          (case by_regime_loop st strategy' rest of
             Inl e \<Rightarrow> Inl e
           | Inr result \<Rightarrow> Inr ((regime_name, sm) # result)))"

definition by_regime :: "store \<Rightarrow> string option \<Rightarrow> py_error + (string \<times> summary_stats) list" where
  "by_regime st strategy' = by_regime_loop st strategy' (regime_names st strategy')"

definition compute_summary :: "real list \<Rightarrow> window_stats" where
  "compute_summary pnls =
     (if pnls = [] then
        \<lparr>total_trades = 0, win_rate = 0, avg_win_pct = 0, avg_loss_pct = 0,
         expectancy_pct = 0, profit_factor = Fin 0\<rparr>
      else
        let wins' = filter (\<lambda>p. p > 0) pnls;
            losses' = filter (\<lambda>p. p \<le> 0) pnls;
            total = length pnls;
            win_rate' = (if total \<noteq> 0 then real (length wins') / real total else 0);
            avg_win = (if wins' \<noteq> [] then sum_list wins' / real (length wins') else 0);
            avg_loss = (if losses' \<noteq> [] then sum_list losses' / real (length losses') else 0);
            expectancy = (win_rate' * avg_win) + ((1 - win_rate') * avg_loss);
            gross_wins = sum_list wins';
            gross_losses = \<bar>sum_list losses'\<bar>;
            profit_factor' = profit_factor_of gross_wins gross_losses
        in \<lparr>total_trades = total,
            win_rate = py_round win_rate' 4,
            avg_win_pct = py_round avg_win 4,
            avg_loss_pct = py_round avg_loss 4,
            expectancy_pct = py_round expectancy 4,
            profit_factor = fl_round profit_factor' 4\<rparr>)"

text \<open>
  Python slicing \<open>xs[lo:hi]\<close> with integer bounds: a negative bound counts from the end,
  and every bound is clipped to the list.
\<close>

definition slice_index :: "nat \<Rightarrow> int \<Rightarrow> nat" where
  "slice_index n i = (if i < 0 then nat (max 0 (int n + i)) else min n (nat i))"

definition py_slice :: "'a list \<Rightarrow> int \<Rightarrow> int \<Rightarrow> 'a list" where
  "py_slice xs lo hi = drop (slice_index (length xs) lo) (take (slice_index (length xs) hi) xs)"

text \<open>
  The rows of \<open>detect_decay\<close>: closed rows of the strategy, latest \<open>exit_time\<close> first
  (timestamps are compared as text). Rows with equal timestamps stay in insertion order,
  as SQLite returns them: the stable ascending sort is applied to the reversed table and
  its result reversed.
\<close>

definition decay_rows :: "store \<Rightarrow> string \<Rightarrow> trade_row list" where
  "decay_rows st strategy' =
     map snd (rev (sort_key fst (rev
       (List.map_filter
          (\<lambda>r. case exit_time r of
                  None \<Rightarrow> None
                | Some t \<Rightarrow> if strategy r = strategy' then Some (t, r) else None)
          (trade_log st)))))"

text \<open>
  The report. \<open>recommendation\<close> is the sentence of the report, kept by its kind and its
  parameters rather than as rendered text: "Need at least n closed trades for analysis.",
  "Need at least n closed trades for decay comparison.", "DECAY DETECTED: ..." with its
  reasons, and "No significant decay detected. ...".
\<close>

datatype decay_reason = WinRateDropped real | ExpectancyTurnedNegative | ProfitFactorBelowOne

datatype recommendation =
    NeedForAnalysis int
  | NeedForComparison int
  | DecayDetected "decay_reason list"
  | NoDecay

datatype decay_report =
    NotEnoughData nat int recommendation
  | Evaluated nat window_stats window_stats real real bool recommendation

fun has_enough_data :: "decay_report \<Rightarrow> bool" where
  "has_enough_data (NotEnoughData _ _ _) = False"
| "has_enough_data (Evaluated _ _ _ _ _ _ _) = True"

fun total_closed_trades :: "decay_report \<Rightarrow> nat" where
  "total_closed_trades (NotEnoughData n _ _) = n"
| "total_closed_trades (Evaluated n _ _ _ _ _ _) = n"

fun needed :: "decay_report \<Rightarrow> int option" where
  "needed (NotEnoughData _ k _) = Some k"
| "needed (Evaluated _ _ _ _ _ _ _) = None"

fun decay_detected :: "decay_report \<Rightarrow> bool option" where
  "decay_detected (NotEnoughData _ _ _) = None"
| "decay_detected (Evaluated _ _ _ _ _ d _) = Some d"

definition detect_decay :: "store \<Rightarrow> string \<Rightarrow> int \<Rightarrow> int \<Rightarrow> py_error + decay_report" where
  "detect_decay st strategy' recent_window baseline_window =
     (let rows = decay_rows st strategy';
          total_needed = recent_window + baseline_window
      in
      if int (length rows) < recent_window then
        Inr (NotEnoughData (length rows) total_needed (NeedForAnalysis recent_window))
      else
        let recent_rows = py_slice rows 0 recent_window;
            baseline_rows = py_slice rows recent_window (recent_window + baseline_window)
        in
        if baseline_rows = [] then
          Inr (NotEnoughData (length rows) total_needed (NeedForComparison total_needed))
        else
          case (those (map pnl_percent recent_rows), those (map pnl_percent baseline_rows)) of
            (Some recent_pnls, Some baseline_pnls) \<Rightarrow>
              let recent_summary = compute_summary recent_pnls;
                  baseline_summary = compute_summary baseline_pnls;
                  wr_delta = win_rate recent_summary - win_rate baseline_summary;
                  exp_delta = expectancy_pct recent_summary - expectancy_pct baseline_summary;
                  c1 = (wr_delta < - 0.15);
                  c2 = (expectancy_pct baseline_summary > 0 \<and> expectancy_pct recent_summary < 0);
                  c3 = (fl_less (profit_factor recent_summary) (Fin 1)
                        \<and> fl_le (Fin 1) (profit_factor baseline_summary));
                  reasons = (if c1 then [WinRateDropped (\<bar>wr_delta\<bar> * 100)] else [])
                            @ (if c2 then [ExpectancyTurnedNegative] else [])
                            @ (if c3 then [ProfitFactorBelowOne] else []);
                  detected = (c1 \<or> c2 \<or> c3)
              in Inr (Evaluated (length rows) recent_summary baseline_summary
                        (py_round wr_delta 4) (py_round exp_delta 4) detected
                        (if detected then DecayDetected reasons else NoDecay))
          | _ \<Rightarrow> Inl TypeError)"

section \<open>Fixtures of the test suite (tests/test\_performance.py)\<close>

text \<open>
  \<open>sample_indicators\<close>, \<open>sample_regime\<close> and \<open>log_complete_trade\<close> are the helpers of the
  repository's tests, with the constants the tests use. The stores below are built from
  the empty store by recorder calls only.
\<close>

definition sample_indicators :: "real \<Rightarrow> indicators" where
  "sample_indicators rsi' =
     [''rsi'' \<mapsto> rsi', ''tema'' \<mapsto> 100, ''bb_percent'' \<mapsto> 0.5, ''bb_width'' \<mapsto> 0.04,
      ''adx'' \<mapsto> 25]"

definition sample_regime :: "string \<Rightarrow> string \<Rightarrow> regime" where
  "sample_regime volatility' trend' =
     [''volatility'' \<mapsto> volatility', ''trend'' \<mapsto> trend',
      ''combined'' \<mapsto> volatility' @ ''_'' @ trend']"

definition log_complete_trade ::
  "store \<Rightarrow> pyval \<Rightarrow> string \<Rightarrow> real \<Rightarrow> real \<Rightarrow> regime \<Rightarrow> regime \<Rightarrow> store" where
  "log_complete_trade st tid strategy' entry_price' exit_price' entry_regime' exit_regime' =
     (let st1 = snd (log_entry st tid ''BTC/USDT'' strategy' ''2026-02-23T12:00:00'' entry_price'
                       (sample_indicators 45) entry_regime')
      in snd (log_exit st1 tid ''2026-02-23T13:00:00'' exit_price' ''roi''
                (sample_indicators 65) exit_regime' entry_price' 60))"

text \<open>One entry logged and not yet closed.\<close>

definition one_open_store :: store where
  "one_open_store =
     snd (log_entry empty_store (PStr ''1'') ''BTC/USDT'' ''momentum_rsi_bb''
            ''2026-02-23T12:00:00'' 100 (sample_indicators 45)
            (sample_regime ''medium'' ''weak_trend''))"

text \<open>
  One trade logged and closed; and two entries logged under the same identifier, neither
  closed.
\<close>

definition one_closed_store :: store where
  "one_closed_store =
     log_complete_trade empty_store (PStr ''1'') ''momentum_rsi_bb'' 100 105
       (sample_regime ''medium'' ''weak_trend'') (sample_regime ''medium'' ''weak_trend'')"

definition two_open_store :: store where
  "two_open_store =
     snd (log_entry one_open_store (PStr ''1'') ''BTC/USDT'' ''momentum_rsi_bb''
            ''2026-02-23T12:30:00'' 102 (sample_indicators 45)
            (sample_regime ''high'' ''strong_trend''))"



text \<open>
  Two closed trades with different exit times: a win of 1 percent closed at 13:00, then
  a loss of 3 percent closed at 14:00.
\<close>

definition partial_baseline_store :: store where
  "partial_baseline_store =
     snd (log_exit
            (snd (log_entry
                    (log_complete_trade empty_store (PStr ''1'') ''momentum_rsi_bb'' 100 101
                       (sample_regime ''medium'' ''weak_trend'')
                       (sample_regime ''medium'' ''weak_trend''))
                    (PStr ''2'') ''BTC/USDT'' ''momentum_rsi_bb'' ''2026-02-23T13:30:00'' 100
                    (sample_indicators 45) (sample_regime ''medium'' ''weak_trend'')))
            (PStr ''2'') ''2026-02-23T14:00:00'' 97 ''stoploss'' (sample_indicators 65)
            (sample_regime ''medium'' ''weak_trend'') 100 30)"

text \<open>
  One closed trade whose entry regime dictionary has no key (so its labels are NULL); and
  the two closed trades of \<open>test_by_regime\<close>, entered under different regimes.
\<close>

definition null_regime_store :: store where
  "null_regime_store =
     snd (log_exit
            (snd (log_entry empty_store (PStr ''1'') ''BTC/USDT'' ''momentum_rsi_bb''
                    ''2026-02-23T12:00:00'' 100 (sample_indicators 45) Map.empty))
            (PStr ''1'') ''2026-02-23T13:00:00'' 103 ''roi'' (sample_indicators 65)
            (sample_regime ''medium'' ''weak_trend'') 100 60)"

definition two_regime_store :: store where
  "two_regime_store =
     log_complete_trade
       (log_complete_trade empty_store (PStr ''1'') ''momentum_rsi_bb'' 100 105
          (sample_regime ''high'' ''strong_trend'') (sample_regime ''medium'' ''weak_trend''))
       (PStr ''2'') ''momentum_rsi_bb'' 100 95
       (sample_regime ''low'' ''ranging'') (sample_regime ''medium'' ''weak_trend'')"

section \<open>Sequences of recorder operations\<close>

text \<open>
  The three writers as one type of operation, and a trace of calls as a list run from left
  to right. \<open>entry_fields\<close> gathers the key and the entry columns of a row;
  \<open>exit_unset\<close> says that every exit column and every derived column is NULL.
\<close>

datatype recorder_op =
    LogEntry pyval string string string real indicators regime
  | LogExit pyval string real string indicators regime real real
  | LogRegimeSnapshot string string regime indicators

fun apply_op :: "store \<Rightarrow> recorder_op \<Rightarrow> store" where
  "apply_op st (LogEntry tid p s et ep inds reg) = snd (log_entry st tid p s et ep inds reg)"
| "apply_op st (LogExit tid xt xp xr inds reg ep dur) =
     snd (log_exit st tid xt xp xr inds reg ep dur)"
| "apply_op st (LogRegimeSnapshot p ts reg inds) = log_regime_snapshot st p ts reg inds"

fun run_ops :: "store \<Rightarrow> recorder_op list \<Rightarrow> store" where
  "run_ops st [] = st"
| "run_ops st (op # ops) = run_ops (apply_op st op) ops"

fun is_log_exit :: "recorder_op \<Rightarrow> bool" where
  "is_log_exit (LogExit _ _ _ _ _ _ _ _) = True"
| "is_log_exit _ = False"

definition entry_fields ::
  "trade_row \<Rightarrow> (nat \<times> string \<times> string \<times> string \<times> string \<times> real) \<times>
     (real option \<times> real option \<times> real option \<times> real option \<times> real option) \<times>
     (string option \<times> string option \<times> string option)" where
  "entry_fields r =
     ((row_id r, trade_id r, pair r, strategy r, entry_time r, entry_price r),
      (entry_rsi r, entry_tema r, entry_bb_percent r, entry_bb_width r, entry_adx r),
      (entry_volatility_regime r, entry_trend_regime r, entry_regime r))"

definition exit_unset :: "trade_row \<Rightarrow> bool" where
  "exit_unset r =
     (exit_time r = None \<and> exit_price r = None \<and> exit_reason r = None
      \<and> exit_rsi r = None \<and> exit_tema r = None \<and> exit_bb_percent r = None
      \<and> exit_bb_width r = None \<and> exit_adx r = None
      \<and> exit_volatility_regime r = None \<and> exit_trend_regime r = None \<and> exit_regime r = None
      \<and> pnl_absolute r = None \<and> pnl_percent r = None \<and> duration_minutes r = None
      \<and> regime_changed r = None)"

definition open_rows_unset :: "store \<Rightarrow> bool" where
  "open_rows_unset st = list_all (\<lambda>r. exit_time r = None \<longrightarrow> exit_unset r) (trade_log st)"

text \<open>
  Two orderings of the trade table used below: keys grow along the table, and among the
  rows of one identifier no open row is followed by a closed one.
\<close>

definition ids_increasing :: "trade_row list \<Rightarrow> bool" where
  "ids_increasing rows = sorted_wrt (\<lambda>a b. row_id a < row_id b) rows"

definition open_rows_latest :: "trade_row list \<Rightarrow> bool" where
  "open_rows_latest rows =
     sorted_wrt (\<lambda>a b. trade_id a = trade_id b \<and> exit_time a = None \<longrightarrow> exit_time b = None) rows"

definition sample_entry_op :: recorder_op where
  "sample_entry_op =
     LogEntry (PStr ''1'') ''BTC/USDT'' ''momentum_rsi_bb'' ''2026-02-23T12:00:00'' 100
       (sample_indicators 45) (sample_regime ''medium'' ''weak_trend'')"

definition sample_exit_op :: recorder_op where
  "sample_exit_op =
     LogExit (PStr ''1'') ''2026-02-23T13:00:00'' 105 ''roi'' (sample_indicators 65)
       (sample_regime ''medium'' ''weak_trend'') 100 60"

section \<open>Properties of the regime classifier\<close>

text \<open>
  Claim C7. For every adx value: below 20 the trend is "ranging"; from 20 (included) to 30
  (excluded) it is "weak_trend"; from 30 (included) upwards it is "strong_trend"; an
  absent or not-a-number adx gives "unknown". The comparisons are those of the floats,
  infinities included.
\<close>

theorem classify_trend_thresholds:
  "classify_trend None = ''unknown''
   \<and> classify_trend (Some NaN) = ''unknown''
   \<and> (fl_less x (Fin 20) \<longrightarrow> classify_trend (Some x) = ''ranging'')
   \<and> (fl_le (Fin 20) x \<and> fl_less x (Fin 30) \<longrightarrow> classify_trend (Some x) = ''weak_trend'')
   \<and> (fl_le (Fin 30) x \<longrightarrow> classify_trend (Some x) = ''strong_trend'')
   \<and> classify_trend (Some (Fin 20)) = ''weak_trend''
   \<and> classify_trend (Some (Fin 30)) = ''strong_trend''"
  by (cases x) (auto simp: classify_trend_def)

theorem classify_trend_thresholds_witness:
  "fl_less (Fin 15) (Fin 20) \<and> classify_trend (Some (Fin 15)) = ''ranging''
   \<and> fl_le (Fin 20) (Fin 25) \<and> fl_less (Fin 25) (Fin 30)
   \<and> classify_trend (Some (Fin 25)) = ''weak_trend''
   \<and> fl_le (Fin 30) PosInf \<and> classify_trend (Some PosInf) = ''strong_trend''"
  using classify_trend_thresholds [of "Fin 15"] classify_trend_thresholds [of "Fin 25"]
    classify_trend_thresholds [of PosInf]
  by simp

text \<open>
  Claim C8. A history of fewer than two observations (the empty one included) is
  classified "unknown", whatever the current value and the percentile parameters are; in
  particular no percentile is computed, so an out-of-range percentile raises nothing.
\<close>

theorem classify_volatility_short_history:
  "length history < 2 \<Longrightarrow> classify_volatility current history low_pct high_pct = Inr ''unknown''"
  by (simp add: classify_volatility_def)

theorem classify_volatility_short_history_witness:
  "length [50::real] < 2 \<and> classify_volatility 50 [50] 25 75 = Inr ''unknown''
   \<and> classify_volatility 50 [] 250 (-1) = Inr ''unknown''"
  using classify_volatility_short_history [of "[50]" 50 25 75]
    classify_volatility_short_history [of "[]" 50 250 "-1"]
  by simp

section \<open>Properties of the trade context recorder\<close>

lemma select_latest_None_iff:
  "select_latest tid rows = None \<longleftrightarrow> (\<forall>r\<in>set rows. trade_id r \<noteq> tid)"
  by (induction rows) (auto split: option.splits)

lemma select_latest_Some:
  "select_latest tid rows = Some r \<Longrightarrow>
     r \<in> set rows \<and> trade_id r = tid \<and> (\<forall>r'\<in>set rows. trade_id r' = tid \<longrightarrow> row_id r' \<le> row_id r)"
proof (induction rows arbitrary: r)
  case Nil
  then show ?case by simp
next
  case (Cons a rows)
  show ?case
  proof (cases "trade_id a = tid")
    case False
    with Cons show ?thesis by auto
  next
    case True
    show ?thesis
    proof (cases "select_latest tid rows")
      case None
      with True Cons.prems have "r = a" by simp
      moreover from None have "\<forall>r'\<in>set rows. trade_id r' \<noteq> tid"
        by (simp add: select_latest_None_iff)
      ultimately show ?thesis using True by auto
    next
      case (Some b)
      from Cons.IH [OF Some] have b: "b \<in> set rows" "trade_id b = tid"
        "\<forall>r'\<in>set rows. trade_id r' = tid \<longrightarrow> row_id r' \<le> row_id b" by auto
      show ?thesis
      proof (cases "row_id b < row_id a")
        case True
        with \<open>trade_id a = tid\<close> Some Cons.prems have "r = a" by simp
        with b True \<open>trade_id a = tid\<close> show ?thesis by auto
      next
        case False
        with \<open>trade_id a = tid\<close> Some Cons.prems have "r = b" by simp
        with b False \<open>trade_id a = tid\<close> show ?thesis by auto
      qed
    qed
  qed
qed


lemma log_exit_not_found:
  "select_latest (py_str tid) (trade_log st) = None \<Longrightarrow>
     log_exit st tid xt xp xr inds reg ep dur = (False, st)"
  by (simp add: log_exit_def)

lemma log_exit_found:
  "select_latest (py_str tid) (trade_log st) = Some row \<Longrightarrow>
     log_exit st tid xt xp xr inds reg ep dur =
       (True,
        st\<lparr>trade_log :=
             map (update_exit (py_str tid) xt xp xr inds reg (xp - ep)
                    (if ep \<noteq> 0 then ((xp - ep) / ep) * 100 else 0) dur
                    (if entry_regime row \<noteq> reg ''combined'' then 1 else 0))
               (trade_log st)\<rparr>)"
  by (simp add: log_exit_def Let_def)

lemma open_row_found:
  "r \<in> set rows \<Longrightarrow> trade_id r = tid \<Longrightarrow> \<exists>row. select_latest tid rows = Some row"
  using select_latest_None_iff [of tid rows] by (cases "select_latest tid rows") auto


lemma trade_log_one_open_store:
  "trade_log one_open_store =
     [\<lparr>row_id = 1, trade_id = ''1'', pair = ''BTC/USDT'', strategy = ''momentum_rsi_bb'',
       entry_time = ''2026-02-23T12:00:00'', entry_price = 100,
       entry_rsi = Some 45, entry_tema = Some 100, entry_bb_percent = Some 0.5,
       entry_bb_width = Some 0.04, entry_adx = Some 25,
       entry_volatility_regime = Some ''medium'', entry_trend_regime = Some ''weak_trend'',
       entry_regime = Some ''medium_weak_trend'',
       exit_time = None, exit_price = None, exit_reason = None,
       exit_rsi = None, exit_tema = None, exit_bb_percent = None,
       exit_bb_width = None, exit_adx = None,
       exit_volatility_regime = None, exit_trend_regime = None, exit_regime = None,
       pnl_absolute = None, pnl_percent = None, duration_minutes = None,
       regime_changed = None\<rparr>]"
  by (simp add: one_open_store_def log_entry_def empty_store_def max_row_id_def
      sample_indicators_def sample_regime_def)




lemma log_exit_unknown_id:
  "\<forall>r\<in>set (trade_log st). trade_id r \<noteq> py_str tid \<Longrightarrow>
     log_exit st tid xt xp xr inds reg ep dur = (False, st)"
  by (simp add: log_exit_not_found select_latest_None_iff)

lemma update_exit_other:
  "\<not> (trade_id r = tid \<and> exit_time r = None) \<Longrightarrow> update_exit tid xt xp xr inds reg pa pp dur rc r = r"
  unfolding update_exit_def by (simp only: if_False)

lemma update_exit_changes_iff:
  "update_exit tid xt xp xr inds reg pa pp dur rc r \<noteq> r \<longleftrightarrow> trade_id r = tid \<and> exit_time r = None"
proof (cases "trade_id r = tid \<and> exit_time r = None")
  case True
  then have "exit_time (update_exit tid xt xp xr inds reg pa pp dur rc r) = Some xt"
    by (simp add: update_exit_def)
  with True show ?thesis by auto
next
  case False
  then show ?thesis by (simp add: update_exit_other)
qed

lemma log_exit_no_open_unchanged:
  assumes "\<forall>r\<in>set (trade_log st). \<not> (trade_id r = py_str tid \<and> exit_time r = None)"
  shows "snd (log_exit st tid xt xp xr inds reg ep dur) = st"
proof (cases "select_latest (py_str tid) (trade_log st)")
  case None
  then show ?thesis by (simp add: log_exit_not_found)
next
  case (Some row)
  have "map (update_exit (py_str tid) xt xp xr inds reg (xp - ep)
               (if ep \<noteq> 0 then ((xp - ep) / ep) * 100 else 0) dur
               (if entry_regime row \<noteq> reg ''combined'' then 1 else 0)) (trade_log st)
        = trade_log st"
    using assms by (intro map_idI) (simp add: update_exit_other)
  then show ?thesis by (simp add: log_exit_found [OF Some])
qed

lemma trade_log_one_closed_store:
  "trade_log one_closed_store =
     [\<lparr>row_id = 1, trade_id = ''1'', pair = ''BTC/USDT'', strategy = ''momentum_rsi_bb'',
       entry_time = ''2026-02-23T12:00:00'', entry_price = 100,
       entry_rsi = Some 45, entry_tema = Some 100, entry_bb_percent = Some 0.5,
       entry_bb_width = Some 0.04, entry_adx = Some 25,
       entry_volatility_regime = Some ''medium'', entry_trend_regime = Some ''weak_trend'',
       entry_regime = Some ''medium_weak_trend'',
       exit_time = Some ''2026-02-23T13:00:00'', exit_price = Some 105,
       exit_reason = Some ''roi'',
       exit_rsi = Some 65, exit_tema = Some 100, exit_bb_percent = Some 0.5,
       exit_bb_width = Some 0.04, exit_adx = Some 25,
       exit_volatility_regime = Some ''medium'', exit_trend_regime = Some ''weak_trend'',
       exit_regime = Some ''medium_weak_trend'',
       pnl_absolute = Some 5, pnl_percent = Some 5, duration_minutes = Some 60,
       regime_changed = Some 0\<rparr>]"
  by (simp add: one_closed_store_def log_complete_trade_def log_entry_def log_exit_def
      update_exit_def empty_store_def max_row_id_def sample_indicators_def sample_regime_def)

text \<open>
  Claim C1 says that \<open>log_exit\<close> returns false whenever no open record carries the
  identifier. The lookup of \<open>log_exit\<close> does not ask for an open record: with a closed
  record of that identifier in the store the call returns true, although it updates
  nothing (the two lemmas above give the part that holds: the store is never changed
  without an open record, and the result is false when no record at all carries the
  identifier). The evaluation below is on a store holding one closed trade.
\<close>

theorem log_exit_on_closed_trade_returns_true:
  "filter (\<lambda>r. trade_id r = py_str (PStr ''1'') \<and> exit_time r = None)
     (trade_log one_closed_store) = []
   \<and> log_exit one_closed_store (PStr ''1'') ''2026-02-23T14:00:00'' 110 ''roi''
       (sample_indicators 65) (sample_regime ''medium'' ''weak_trend'') 100 120
     = (True, one_closed_store)"
  by (simp add: log_exit_def update_exit_def trade_log_one_closed_store)


lemma changed_count:
  "length (filter (\<lambda>(r, r'). r \<noteq> r') (zip xs (map f xs))) = length (filter (\<lambda>r. f r \<noteq> r) xs)"
  by (induction xs) auto

lemma trade_log_two_open_store:
  "map (\<lambda>r. (row_id r, trade_id r, entry_regime r, exit_time r)) (trade_log two_open_store) =
     [(1, ''1'', Some ''medium_weak_trend'', None), (2, ''1'', Some ''high_strong_trend'', None)]"
  by (simp add: two_open_store_def trade_log_one_open_store log_entry_def max_row_id_def
      sample_regime_def)

section \<open>Properties of sequences of recorder operations\<close>

lemma entry_fields_update_exit:
  "entry_fields (update_exit tid xt xp xr inds reg pa pp dur rc r) = entry_fields r"
  by (simp add: update_exit_def entry_fields_def)

lemma update_exit_closed:
  "exit_time (update_exit tid xt xp xr inds reg pa pp dur rc r) = None \<Longrightarrow>
   update_exit tid xt xp xr inds reg pa pp dur rc r = r"
  by (cases "trade_id r = tid \<and> exit_time r = None")
     (simp_all add: update_exit_def update_exit_other)

lemma log_exit_trade_log:
  "\<exists>pa pp rc. trade_log (snd (log_exit st tid xt xp xr inds reg ep dur)) =
      map (update_exit (py_str tid) xt xp xr inds reg pa pp dur rc) (trade_log st)
    \<or> snd (log_exit st tid xt xp xr inds reg ep dur) = st"
proof (cases "select_latest (py_str tid) (trade_log st)")
  case None
  then show ?thesis by (simp add: log_exit_not_found)
next
  case (Some row)
  show ?thesis by (simp add: log_exit_found [OF Some]) blast
qed

lemma log_entry_trade_log:
  "\<exists>new. trade_log (snd (log_entry st tid p s et ep inds reg)) = trade_log st @ [new]
     \<and> entry_fields new =
         ((Suc (max_row_id (trade_log st)), py_str tid, p, s, et, ep),
          (inds ''rsi'', inds ''tema'', inds ''bb_percent'', inds ''bb_width'', inds ''adx''),
          (reg ''volatility'', reg ''trend'', reg ''combined''))
     \<and> exit_unset new"
  by (simp add: log_entry_def Let_def entry_fields_def exit_unset_def)

lemma apply_op_row:
  assumes "i < length (trade_log st)"
  shows "i < length (trade_log (apply_op st op))
    \<and> entry_fields (trade_log (apply_op st op) ! i) = entry_fields (trade_log st ! i)
    \<and> (trade_log (apply_op st op) ! i \<noteq> trade_log st ! i \<longrightarrow>
         is_log_exit op \<and> exit_time (trade_log st ! i) = None
         \<and> exit_time (trade_log (apply_op st op) ! i) \<noteq> None)"
proof (cases op)
  case (LogEntry tid p s et ep inds reg)
  obtain new where "trade_log (snd (log_entry st tid p s et ep inds reg)) = trade_log st @ [new]"
    using log_entry_trade_log by blast
  with assms LogEntry show ?thesis by (simp add: nth_append)
next
  case (LogExit tid xt xp xr inds reg ep dur)
  from log_exit_trade_log [of st tid xt xp xr inds reg ep dur]
  show ?thesis
  proof (elim exE disjE)
    fix pa pp rc
    assume m: "trade_log (snd (log_exit st tid xt xp xr inds reg ep dur)) =
      map (update_exit (py_str tid) xt xp xr inds reg pa pp dur rc) (trade_log st)"
    have "update_exit (py_str tid) xt xp xr inds reg pa pp dur rc (trade_log st ! i)
            \<noteq> trade_log st ! i \<longrightarrow>
          exit_time (trade_log st ! i) = None
          \<and> exit_time (update_exit (py_str tid) xt xp xr inds reg pa pp dur rc (trade_log st ! i))
              \<noteq> None"
      using update_exit_closed [of "py_str tid" xt xp xr inds reg pa pp dur rc "trade_log st ! i"]
        update_exit_changes_iff [of "py_str tid" xt xp xr inds reg pa pp dur rc "trade_log st ! i"]
      by auto
    with assms LogExit m show ?thesis
      by (simp add: entry_fields_update_exit)
  next
    assume "snd (log_exit st tid xt xp xr inds reg ep dur) = st"
    with assms LogExit show ?thesis by simp
  qed
next
  case (LogRegimeSnapshot p ts reg inds)
  with assms show ?thesis by (simp add: log_regime_snapshot_def)
qed

lemma apply_op_length:
  "length (trade_log (apply_op st op)) =
     (case op of LogEntry _ _ _ _ _ _ _ \<Rightarrow> Suc (length (trade_log st)) | _ \<Rightarrow> length (trade_log st))"
proof (cases op)
  case (LogEntry tid p s et ep inds reg)
  then show ?thesis by (simp add: log_entry_def Let_def)
next
  case (LogExit tid xt xp xr inds reg ep dur)
  from log_exit_trade_log [of st tid xt xp xr inds reg ep dur] LogExit
  show ?thesis by auto
next
  case (LogRegimeSnapshot p ts reg inds)
  then show ?thesis by (simp add: log_regime_snapshot_def)
qed

lemma update_exit_keeps_unset:
  "exit_time r = None \<longrightarrow> exit_unset r \<Longrightarrow>
   exit_time (update_exit tid xt xp xr inds reg pa pp dur rc r) = None \<longrightarrow>
     exit_unset (update_exit tid xt xp xr inds reg pa pp dur rc r)"
  using update_exit_closed [of tid xt xp xr inds reg pa pp dur rc r]
  by (cases "trade_id r = tid \<and> exit_time r = None") (auto simp add: update_exit_other)

lemma apply_op_open_rows_unset:
  assumes "open_rows_unset st"
  shows "open_rows_unset (apply_op st op)"
proof (cases op)
  case (LogEntry tid p s et ep inds reg)
  obtain new where "trade_log (snd (log_entry st tid p s et ep inds reg)) = trade_log st @ [new]"
    "exit_unset new"
    using log_entry_trade_log by blast
  with assms LogEntry show ?thesis by (simp add: open_rows_unset_def)
next
  case (LogExit tid xt xp xr inds reg ep dur)
  from log_exit_trade_log [of st tid xt xp xr inds reg ep dur]
  show ?thesis
  proof (elim exE disjE)
    fix pa pp rc
    assume m: "trade_log (snd (log_exit st tid xt xp xr inds reg ep dur)) =
      map (update_exit (py_str tid) xt xp xr inds reg pa pp dur rc) (trade_log st)"
    show ?thesis
      using assms LogExit update_exit_keeps_unset
      by (simp add: open_rows_unset_def m list_all_iff)
  next
    assume "snd (log_exit st tid xt xp xr inds reg ep dur) = st"
    with assms LogExit show ?thesis by simp
  qed
next
  case (LogRegimeSnapshot p ts reg inds)
  with assms show ?thesis by (simp add: log_regime_snapshot_def open_rows_unset_def)
qed

lemma run_ops_open_rows_unset:
  "open_rows_unset st \<Longrightarrow> open_rows_unset (run_ops st ops)"
  by (induction ops arbitrary: st) (simp_all add: apply_op_open_rows_unset)

lemma open_rows_unset_empty: "open_rows_unset empty_store"
  by (simp add: open_rows_unset_def empty_store_def)

lemma run_ops_row:
  "i < length (trade_log st) \<Longrightarrow>
     i < length (trade_log (run_ops st ops))
     \<and> entry_fields (trade_log (run_ops st ops) ! i) = entry_fields (trade_log st ! i)
     \<and> (exit_time (trade_log st ! i) \<noteq> None \<longrightarrow>
          trade_log (run_ops st ops) ! i = trade_log st ! i)"
proof (induction ops arbitrary: st)
  case Nil
  then show ?case by simp
next
  case (Cons op ops)
  from apply_op_row [OF Cons.prems, of op]
  have s: "i < length (trade_log (apply_op st op))"
    "entry_fields (trade_log (apply_op st op) ! i) = entry_fields (trade_log st ! i)"
    "exit_time (trade_log st ! i) \<noteq> None \<longrightarrow> trade_log (apply_op st op) ! i = trade_log st ! i"
    by auto
  from Cons.IH [OF s(1)] s show ?case by auto
qed


text \<open>
  Claim C4. Along every sequence of recorder operations from the empty store: a record is
  created by \<open>log_entry\<close> only, with its entry fields taken from the arguments and every
  exit field unset; the key and the entry fields of an existing record are the same after
  any further operations; a record that is closed is never changed again; and a single
  operation changes an existing record only if it is a \<open>log_exit\<close> and the record had all
  its exit fields unset, after which the record is closed.
\<close>

theorem recorder_fields_written_once:
  "(\<forall>i<length (trade_log (run_ops empty_store ops)).
       i < length (trade_log (run_ops (run_ops empty_store ops) later))
     \<and> entry_fields (trade_log (run_ops (run_ops empty_store ops) later) ! i)
         = entry_fields (trade_log (run_ops empty_store ops) ! i)
     \<and> (exit_time (trade_log (run_ops empty_store ops) ! i) \<noteq> None \<longrightarrow>
          trade_log (run_ops (run_ops empty_store ops) later) ! i
            = trade_log (run_ops empty_store ops) ! i)
     \<and> (trade_log (apply_op (run_ops empty_store ops) op) ! i
            \<noteq> trade_log (run_ops empty_store ops) ! i \<longrightarrow>
          is_log_exit op
          \<and> exit_unset (trade_log (run_ops empty_store ops) ! i)
          \<and> exit_time (trade_log (apply_op (run_ops empty_store ops) op) ! i) \<noteq> None))
   \<and> (case op of
         LogEntry tid p s et ep inds reg \<Rightarrow>
           \<exists>new. trade_log (apply_op (run_ops empty_store ops) op)
                    = trade_log (run_ops empty_store ops) @ [new]
               \<and> entry_fields new =
                   ((Suc (max_row_id (trade_log (run_ops empty_store ops))),
                     py_str tid, p, s, et, ep),
                    (inds ''rsi'', inds ''tema'', inds ''bb_percent'', inds ''bb_width'',
                     inds ''adx''),
                    (reg ''volatility'', reg ''trend'', reg ''combined''))
               \<and> exit_unset new
       | _ \<Rightarrow> length (trade_log (apply_op (run_ops empty_store ops) op))
               = length (trade_log (run_ops empty_store ops)))"
proof -
  let ?st = "run_ops empty_store ops"
  have inv: "open_rows_unset ?st"
    by (simp add: run_ops_open_rows_unset open_rows_unset_empty)
  have rows: "i < length (trade_log (run_ops ?st later))
     \<and> entry_fields (trade_log (run_ops ?st later) ! i) = entry_fields (trade_log ?st ! i)
     \<and> (exit_time (trade_log ?st ! i) \<noteq> None \<longrightarrow>
          trade_log (run_ops ?st later) ! i = trade_log ?st ! i)
     \<and> (trade_log (apply_op ?st op) ! i \<noteq> trade_log ?st ! i \<longrightarrow>
          is_log_exit op \<and> exit_unset (trade_log ?st ! i)
          \<and> exit_time (trade_log (apply_op ?st op) ! i) \<noteq> None)"
    if i: "i < length (trade_log ?st)" for i
  proof -
    from inv i have "exit_time (trade_log ?st ! i) = None \<longrightarrow> exit_unset (trade_log ?st ! i)"
      by (simp add: open_rows_unset_def list_all_length)
    with run_ops_row [OF i, of later] apply_op_row [OF i, of op] show ?thesis by blast
  qed
  have creation: "case op of
         LogEntry tid p s et ep inds reg \<Rightarrow>
           \<exists>new. trade_log (apply_op ?st op) = trade_log ?st @ [new]
               \<and> entry_fields new =
                   ((Suc (max_row_id (trade_log ?st)), py_str tid, p, s, et, ep),
                    (inds ''rsi'', inds ''tema'', inds ''bb_percent'', inds ''bb_width'',
                     inds ''adx''),
                    (reg ''volatility'', reg ''trend'', reg ''combined''))
               \<and> exit_unset new
       | _ \<Rightarrow> length (trade_log (apply_op ?st op)) = length (trade_log ?st)"
  proof (cases op)
    case (LogEntry tid p s et ep inds reg)
    then show ?thesis using log_entry_trade_log [of ?st tid p s et ep inds reg] by simp
  next
    case (LogExit tid xt xp xr inds reg ep dur)
    then show ?thesis using apply_op_length [of ?st op] by simp
  next
    case (LogRegimeSnapshot p ts reg inds)
    then show ?thesis using apply_op_length [of ?st op] by simp
  qed
  from rows creation show ?thesis by blast
qed

lemma run_sample_entry: "run_ops empty_store [sample_entry_op] = one_open_store"
  by (simp add: sample_entry_op_def one_open_store_def)

lemma run_sample_exit:
  "exit_time (trade_log (apply_op one_open_store sample_exit_op) ! 0)
     = Some ''2026-02-23T13:00:00''"
  by (simp add: sample_exit_op_def log_exit_def update_exit_def trade_log_one_open_store)

theorem recorder_fields_written_once_witness:
  "0 < length (trade_log (run_ops empty_store [sample_entry_op]))
   \<and> trade_log (apply_op (run_ops empty_store [sample_entry_op]) sample_exit_op) ! 0
       \<noteq> trade_log (run_ops empty_store [sample_entry_op]) ! 0
   \<and> is_log_exit sample_exit_op
   \<and> exit_unset (trade_log (run_ops empty_store [sample_entry_op]) ! 0)
   \<and> entry_fields (trade_log (run_ops (run_ops empty_store [sample_entry_op])
        [sample_exit_op, sample_entry_op]) ! 0)
       = entry_fields (trade_log (run_ops empty_store [sample_entry_op]) ! 0)"
proof -
  have len: "0 < length (trade_log (run_ops empty_store [sample_entry_op]))"
    unfolding run_sample_entry by (simp add: trade_log_one_open_store)
  have "exit_time (trade_log one_open_store ! 0) = None"
    by (simp add: trade_log_one_open_store)
  with run_sample_exit
  have "exit_time (trade_log (apply_op one_open_store sample_exit_op) ! 0)
      \<noteq> exit_time (trade_log one_open_store ! 0)"
    by simp
  then have chg: "trade_log (apply_op (run_ops empty_store [sample_entry_op]) sample_exit_op) ! 0
       \<noteq> trade_log (run_ops empty_store [sample_entry_op]) ! 0"
    unfolding run_sample_entry by auto
  from recorder_fields_written_once
    [of "[sample_entry_op]" "[sample_exit_op, sample_entry_op]" sample_exit_op] len chg
  show ?thesis by blast
qed

section \<open>Properties of the performance analyzer\<close>

lemmas recorder_eval =
  log_complete_trade_def log_entry_def log_exit_def update_exit_def empty_store_def
  max_row_id_def sample_indicators_def sample_regime_def


lemma those_map_Some:
  "those (map f xs) = Some ys \<Longrightarrow> List.map_filter f xs = ys \<and> length ys = length xs"
proof (induction xs arbitrary: ys)
  case Nil
  then show ?case by (simp add: List.map_filter_simps)
next
  case (Cons x xs)
  then show ?case
    by (cases "f x"; cases "those (map f xs)") (auto simp add: List.map_filter_simps)
qed


lemma round_half_even_0: "round_half_even 0 = 0"
  by (simp add: round_half_even_def)

lemma py_round_0: "py_round 0 n = 0"
  by (simp add: py_round_def round_half_even_0)

lemma summary_Inr:
  assumes "summary st strategy' regime' = Inr s"
  shows "total_trades s = length (summary_rows st strategy' regime')
    \<and> profit_factor s =
        fl_round (profit_factor_of
          (sum_list (filter (\<lambda>p. p > 0) (List.map_filter pnl_percent (summary_rows st strategy' regime'))))
          \<bar>sum_list (filter (\<lambda>p. p \<le> 0) (List.map_filter pnl_percent (summary_rows st strategy' regime')))\<bar>) 4"
proof (cases "summary_rows st strategy' regime' = []")
  case True
  with assms have "s = \<lparr>total_trades = 0, win_rate = 0, avg_win_pct = 0, avg_loss_pct = 0,
             expectancy_pct = 0, profit_factor = Fin 0,
             wins = 0, losses = 0, avg_duration_min = 0\<rparr>"
    by (simp add: summary_def)
  with True show ?thesis
    by (simp add: List.map_filter_simps profit_factor_of_def py_round_0)
next
  case False
  with assms obtain pnls where
    pnls: "those (map pnl_percent (summary_rows st strategy' regime')) = Some pnls"
    by (cases "those (map pnl_percent (summary_rows st strategy' regime'))")
       (simp_all add: summary_def)
  from those_map_Some [OF pnls]
  have eq: "List.map_filter pnl_percent (summary_rows st strategy' regime') = pnls"
    and len: "length pnls = length (summary_rows st strategy' regime')" by auto
  from assms False pnls have
    "total_trades s = length pnls"
    "profit_factor s =
       fl_round (profit_factor_of (sum_list (filter (\<lambda>p. p > 0) pnls))
                   \<bar>sum_list (filter (\<lambda>p. p \<le> 0) pnls)\<bar>) 4"
    by (auto simp add: summary_def Let_def)
  with eq len show ?thesis by simp
qed






lemma regime_names_eq:
  "regime_names st strategy' =
     remdups (List.map_filter entry_regime (summary_rows st strategy' None))"
  by (simp add: regime_names_def summary_rows_def truthy_def)

lemma set_map_filter_Some:
  "set (List.map_filter f xs) = {g. \<exists>x\<in>set xs. f x = Some g}"
proof (induction xs)
  case Nil
  then show ?case by (simp add: List.map_filter_simps)
next
  case (Cons x xs)
  then show ?case by (cases "f x") (auto simp add: List.map_filter_simps)
qed

lemma summary_rows_regime:
  "g \<noteq> [] \<Longrightarrow>
     summary_rows st strategy' (Some g) =
       filter (\<lambda>r. entry_regime r = Some g) (summary_rows st strategy' None)"
  by (auto simp add: summary_rows_def truthy_def intro: filter_cong)

lemma by_regime_loop_Inr:
  "by_regime_loop st strategy' names = Inr buckets \<Longrightarrow>
     map fst buckets = names
     \<and> (\<forall>(g, s)\<in>set buckets. summary st strategy' (Some g) = Inr s)"
proof (induction names arbitrary: buckets)
  case Nil
  then show ?case by simp
next
  case (Cons n names)
  then show ?case
    by (auto split: sum.splits)
qed

lemma sum_indicator_distinct:
  "distinct gs \<Longrightarrow>
     sum_list (map (\<lambda>g. if g = g0 then 1 else 0) gs) = (if g0 \<in> set gs then 1 else (0::nat))"
  by (induction gs) auto

lemma count_by_label:
  assumes "distinct gs"
    and "\<forall>x\<in>set xs. \<forall>g. f x = Some g \<longrightarrow> g \<in> set gs"
  shows "sum_list (map (\<lambda>g. length (filter (\<lambda>r. f r = Some g) xs)) gs)
           = length (filter (\<lambda>r. f r \<noteq> None) xs)"
  using assms(2)
proof (induction xs)
  case Nil
  then show ?case by simp
next
  case (Cons x xs)
  then have IH: "sum_list (map (\<lambda>g. length (filter (\<lambda>r. f r = Some g) xs)) gs)
           = length (filter (\<lambda>r. f r \<noteq> None) xs)" by simp
  show ?case
  proof (cases "f x")
    case None
    with IH show ?thesis by simp
  next
    case (Some g0)
    with Cons.prems have mem: "g0 \<in> set gs" by simp
    have "(\<lambda>g. length (filter (\<lambda>r. f r = Some g) (x # xs)))
        = (\<lambda>g. (if g = g0 then 1 else 0) + length (filter (\<lambda>r. f r = Some g) xs))"
      using Some by auto
    then have "sum_list (map (\<lambda>g. length (filter (\<lambda>r. f r = Some g) (x # xs))) gs)
        = sum_list (map (\<lambda>g. if g = g0 then 1 else 0) gs)
          + sum_list (map (\<lambda>g. length (filter (\<lambda>r. f r = Some g) xs)) gs)"
      by (simp add: sum_list_addf)
    also have "\<dots> = 1 + length (filter (\<lambda>r. f r \<noteq> None) xs)"
      using sum_indicator_distinct [OF assms(1), of g0] mem IH by simp
    finally show ?thesis using Some by simp
  qed
qed

text \<open>
  Claim C6, as the code has it. \<open>by_regime\<close> partitions the closed trades that have an
  entry regime label: the bucket keys are exactly the labels that occur, each once; the
  bucket of a label counts exactly the closed trades with that label; and the bucket
  totals sum to the number of closed trades with a label, which is the total of the
  unfiltered summary when every closed trade has one. This is stated, for any strategy
  filter, for stores in which no closed trade has the empty string as its label.
\<close>

theorem by_regime_partition:
  assumes "by_regime st strategy' = Inr buckets"
    and "\<forall>r\<in>set (summary_rows st strategy' None). entry_regime r \<noteq> Some []"
  shows "distinct (map fst buckets)
       \<and> set (map fst buckets)
           = {g. \<exists>r\<in>set (summary_rows st strategy' None). entry_regime r = Some g}
       \<and> (\<forall>(g, s)\<in>set buckets.
             total_trades s
               = length (filter (\<lambda>r. entry_regime r = Some g) (summary_rows st strategy' None)))
       \<and> sum_list (map (\<lambda>(g, s). total_trades s) buckets)
           = length (filter (\<lambda>r. entry_regime r \<noteq> None) (summary_rows st strategy' None))
       \<and> (\<forall>s. summary st strategy' None = Inr s
                \<and> (\<forall>r\<in>set (summary_rows st strategy' None). entry_regime r \<noteq> None)
              \<longrightarrow> sum_list (map (\<lambda>(g, s). total_trades s) buckets) = total_trades s)"
proof -
  let ?rows = "summary_rows st strategy' None"
  let ?names = "regime_names st strategy'"
  from assms(1) have loop: "by_regime_loop st strategy' ?names = Inr buckets"
    by (simp add: by_regime_def)
  from by_regime_loop_Inr [OF loop]
  have keys: "map fst buckets = ?names"
    and sums: "\<forall>(g, s)\<in>set buckets. summary st strategy' (Some g) = Inr s" by auto
  have dist: "distinct (map fst buckets)"
    by (simp add: keys regime_names_eq)
  have names: "set ?names = {g. \<exists>r\<in>set ?rows. entry_regime r = Some g}"
    by (simp add: regime_names_eq set_map_filter_Some)
  have each: "\<forall>(g, s)\<in>set buckets.
      total_trades s = length (filter (\<lambda>r. entry_regime r = Some g) ?rows)"
  proof (clarify)
    fix g s
    assume gs: "(g, s) \<in> set buckets"
    then have "g \<in> set (map fst buckets)" by force
    with keys names obtain r where "r \<in> set ?rows" "entry_regime r = Some g" by auto
    with assms(2) have ne: "g \<noteq> []" by auto
    from sums gs have "summary st strategy' (Some g) = Inr s" by auto
    from summary_Inr [OF this] have "total_trades s = length (summary_rows st strategy' (Some g))"
      by simp
    then show "total_trades s = length (filter (\<lambda>r. entry_regime r = Some g) ?rows)"
      by (simp add: summary_rows_regime [OF ne])
  qed
  have "map (\<lambda>(g, s). total_trades s) buckets
      = map (\<lambda>(g, s). length (filter (\<lambda>r. entry_regime r = Some g) ?rows)) buckets"
    using each by (intro map_cong) auto
  also have "\<dots> = map (\<lambda>g. length (filter (\<lambda>r. entry_regime r = Some g) ?rows)) (map fst buckets)"
    by (simp add: case_prod_beta comp_def)
  finally have "sum_list (map (\<lambda>(g, s). total_trades s) buckets)
      = sum_list (map (\<lambda>g. length (filter (\<lambda>r. entry_regime r = Some g) ?rows)) ?names)"
    by (simp add: keys)
  also have "\<dots> = length (filter (\<lambda>r. entry_regime r \<noteq> None) ?rows)"
  proof (rule count_by_label)
    show "distinct ?names" by (simp add: regime_names_eq)
    show "\<forall>x\<in>set ?rows. \<forall>g. entry_regime x = Some g \<longrightarrow> g \<in> set ?names"
      using names by auto
  qed
  finally have total: "sum_list (map (\<lambda>(g, s). total_trades s) buckets)
      = length (filter (\<lambda>r. entry_regime r \<noteq> None) ?rows)" .
  have unfiltered: "\<forall>s. summary st strategy' None = Inr s
                \<and> (\<forall>r\<in>set ?rows. entry_regime r \<noteq> None)
              \<longrightarrow> sum_list (map (\<lambda>(g, s). total_trades s) buckets) = total_trades s"
  proof (intro allI impI, elim conjE)
    fix s
    assume s: "summary st strategy' None = Inr s"
      and all: "\<forall>r\<in>set ?rows. entry_regime r \<noteq> None"
    from all have "filter (\<lambda>r. entry_regime r \<noteq> None) ?rows = ?rows"
      by (simp add: filter_id_conv)
    with total summary_Inr [OF s] show
      "sum_list (map (\<lambda>(g, s). total_trades s) buckets) = total_trades s" by simp
  qed
  from dist keys names each total unfiltered show ?thesis by simp
qed

lemma by_regime_null_regime_store: "by_regime null_regime_store None = Inr []"
  by (simp add: null_regime_store_def recorder_eval by_regime_def regime_names_def
      is_closed_def truthy_def List.map_filter_def)

lemma summary_null_regime_store:
  "map_sum id total_trades (summary null_regime_store None None) = Inr 1"
  by (simp add: null_regime_store_def recorder_eval summary_def summary_rows_def is_closed_def
      truthy_def profit_factor_of_def py_round_def round_half_even_def List.map_filter_def)

text \<open>
  Claim C6 says that the bucket totals of \<open>by_regime\<close> sum to the total of the unfiltered
  summary. \<open>by_regime\<close> leaves out the closed trades whose entry regime is NULL, which the
  unfiltered summary counts: with one such trade the buckets sum to 0 and the summary
  counts 1.
\<close>

theorem by_regime_misses_null_regime:
  "map_sum id (\<lambda>buckets. sum_list (map (\<lambda>(g, s). total_trades s) buckets))
       (by_regime null_regime_store None) = Inr 0
   \<and> map_sum id total_trades (summary null_regime_store None None) = Inr 1"
  by (simp add: by_regime_null_regime_store summary_null_regime_store)

lemma summary_rows_two_regime_store:
  "map (\<lambda>r. (entry_regime r, pnl_percent r)) (summary_rows two_regime_store None None)
     = [(Some ''high_strong_trend'', Some 5), (Some ''low_ranging'', Some (- 5))]"
  by (simp add: two_regime_store_def recorder_eval summary_rows_def is_closed_def truthy_def)

lemma by_regime_two_regime_store:
  "by_regime two_regime_store None =
     Inr [(''high_strong_trend'',
           \<lparr>total_trades = 1, win_rate = 1, avg_win_pct = 5, avg_loss_pct = 0,
            expectancy_pct = 5, profit_factor = PosInf, wins = 1, losses = 0,
            avg_duration_min = 60\<rparr>),
          (''low_ranging'',
           \<lparr>total_trades = 1, win_rate = 0, avg_win_pct = 0, avg_loss_pct = - 5,
            expectancy_pct = - 5, profit_factor = Fin 0, wins = 0, losses = 1,
            avg_duration_min = 60\<rparr>)]"
  by (simp add: two_regime_store_def recorder_eval by_regime_def regime_names_def
      summary_def summary_rows_def is_closed_def truthy_def profit_factor_of_def
      py_round_def round_half_even_def List.map_filter_def)

lemma summary_two_regime_store:
  "summary two_regime_store None None =
     Inr \<lparr>total_trades = 2, win_rate = 0.5, avg_win_pct = 5, avg_loss_pct = - 5,
          expectancy_pct = 0, profit_factor = Fin 1, wins = 1, losses = 1,
          avg_duration_min = 60\<rparr>"
  by (simp add: two_regime_store_def recorder_eval summary_def summary_rows_def is_closed_def
      truthy_def profit_factor_of_def py_round_def round_half_even_def List.map_filter_def)

theorem by_regime_partition_witness:
  "by_regime two_regime_store None =
     Inr [(''high_strong_trend'',
           \<lparr>total_trades = 1, win_rate = 1, avg_win_pct = 5, avg_loss_pct = 0,
            expectancy_pct = 5, profit_factor = PosInf, wins = 1, losses = 0,
            avg_duration_min = 60\<rparr>),
          (''low_ranging'',
           \<lparr>total_trades = 1, win_rate = 0, avg_win_pct = 0, avg_loss_pct = - 5,
            expectancy_pct = - 5, profit_factor = Fin 0, wins = 0, losses = 1,
            avg_duration_min = 60\<rparr>)]
   \<and> map entry_regime (summary_rows two_regime_store None None)
       = [Some ''high_strong_trend'', Some ''low_ranging'']
   \<and> length (filter (\<lambda>r. entry_regime r \<noteq> None) (summary_rows two_regime_store None None))
       = 1 + 1"
proof -
  have labels: "map entry_regime (summary_rows two_regime_store None None)
       = [Some ''high_strong_trend'', Some ''low_ranging'']"
    using summary_rows_two_regime_store [THEN arg_cong, of "map fst"] by (simp add: comp_def)
  have "\<forall>l\<in>set (map entry_regime (summary_rows two_regime_store None None)). l \<noteq> Some []"
    unfolding labels by simp
  then have nonempty: "\<forall>r\<in>set (summary_rows two_regime_store None None).
      entry_regime r \<noteq> Some []"
    by simp
  note part = by_regime_partition [OF by_regime_two_regime_store nonempty]
  from part [THEN conjunct2, THEN conjunct2, THEN conjunct2, THEN conjunct1]
  have "length (filter (\<lambda>r. entry_regime r \<noteq> None) (summary_rows two_regime_store None None))
       = 1 + 1"
    by simp
  with labels by_regime_two_regime_store show ?thesis by blast
qed

lemma length_decay_rows:
  "length (decay_rows st strategy') =
     length (filter (\<lambda>r. is_closed r \<and> strategy r = strategy') (trade_log st))"
proof -
  have "length (decay_rows st strategy') =
      length (filter (\<lambda>r. (case exit_time r of None \<Rightarrow> None
                 | Some t \<Rightarrow> if strategy r = strategy' then Some (t, r) else None) \<noteq> None)
               (trade_log st))"
    by (simp add: decay_rows_def List.map_filter_def)
  also have "\<dots> = length (filter (\<lambda>r. is_closed r \<and> strategy r = strategy') (trade_log st))"
    by (rule arg_cong [where f = length], rule filter_cong)
       (auto simp add: is_closed_def split: option.splits)
  finally show ?thesis .
qed

lemma py_slice_past_end:
  "0 \<le> lo \<Longrightarrow> int (length xs) \<le> lo \<Longrightarrow> py_slice xs lo hi = []"
  by (simp add: py_slice_def slice_index_def)

text \<open>
  Claim C2, as the code has it. For positive windows, when the strategy has fewer closed
  trades than \<open>recent_window\<close>, or exactly \<open>recent_window\<close> of them (so that no older
  trade is left for the baseline), \<open>detect_decay\<close> returns the "not enough data" report:
  \<open>has_enough_data\<close> is false, \<open>total_closed_trades\<close> is the number of closed trades of the
  strategy, \<open>needed\<close> is \<open>recent_window + baseline_window\<close>, and no decay verdict is
  computed.
\<close>

theorem detect_decay_insufficient_data:
  assumes "0 < recent_window" and "0 < baseline_window"
    and "n = length (filter (\<lambda>r. is_closed r \<and> strategy r = strategy') (trade_log st))"
    and "int n \<le> recent_window"
  shows "detect_decay st strategy' recent_window baseline_window =
           Inr (NotEnoughData n (recent_window + baseline_window)
                  (if int n < recent_window then NeedForAnalysis recent_window
                   else NeedForComparison (recent_window + baseline_window)))
       \<and> map_sum id has_enough_data (detect_decay st strategy' recent_window baseline_window)
           = Inr False
       \<and> map_sum id total_closed_trades (detect_decay st strategy' recent_window baseline_window)
           = Inr n
       \<and> map_sum id needed (detect_decay st strategy' recent_window baseline_window)
           = Inr (Some (recent_window + baseline_window))
       \<and> map_sum id decay_detected (detect_decay st strategy' recent_window baseline_window)
           = Inr None"
proof -
  have n: "length (decay_rows st strategy') = n"
    by (simp add: length_decay_rows assms(3))
  have "detect_decay st strategy' recent_window baseline_window =
           Inr (NotEnoughData n (recent_window + baseline_window)
                  (if int n < recent_window then NeedForAnalysis recent_window
                   else NeedForComparison (recent_window + baseline_window)))"
  proof (cases "int n < recent_window")
    case True
    then show ?thesis by (simp add: detect_decay_def n)
  next
    case False
    with assms(4) have eq: "int n = recent_window" by simp
    then have "py_slice (decay_rows st strategy') recent_window (recent_window + baseline_window) = []"
      using assms(1) by (intro py_slice_past_end) (simp_all add: n)
    with False show ?thesis by (simp add: detect_decay_def n Let_def)
  qed
  then show ?thesis by simp
qed

lemma decay_rows_partial_baseline_store:
  "map (\<lambda>r. (exit_time r, pnl_percent r)) (decay_rows partial_baseline_store ''momentum_rsi_bb'')
     = [(Some ''2026-02-23T14:00:00'', Some (- 3)), (Some ''2026-02-23T13:00:00'', Some 1)]"
  by (simp add: partial_baseline_store_def recorder_eval decay_rows_def List.map_filter_def)

lemma detect_decay_partial_baseline_store:
  "detect_decay partial_baseline_store ''momentum_rsi_bb'' 1 2 =
     Inr (Evaluated 2
       \<lparr>total_trades = 1, win_rate = 0, avg_win_pct = 0, avg_loss_pct = - 3,
        expectancy_pct = - 3, profit_factor = Fin 0\<rparr>
       \<lparr>total_trades = 1, win_rate = 1, avg_win_pct = 1, avg_loss_pct = 0,
        expectancy_pct = 1, profit_factor = PosInf\<rparr>
       (- 1) (- 4) True
       (DecayDetected [WinRateDropped 100, ExpectancyTurnedNegative, ProfitFactorBelowOne]))"
  by (simp add: partial_baseline_store_def recorder_eval decay_rows_def List.map_filter_def
      detect_decay_def py_slice_def slice_index_def compute_summary_def profit_factor_of_def
      py_round_def round_half_even_def)

lemma closed_count_partial_baseline_store:
  "length (filter (\<lambda>r. is_closed r \<and> strategy r = ''momentum_rsi_bb'')
     (trade_log partial_baseline_store)) = 2"
  by (simp add: partial_baseline_store_def recorder_eval is_closed_def)

lemma closed_count_one_closed_store:
  "length (filter (\<lambda>r. is_closed r \<and> strategy r = ''momentum_rsi_bb'')
     (trade_log one_closed_store)) = 1"
  by (simp add: trade_log_one_closed_store is_closed_def)

lemma detect_decay_one_closed_store:
  "detect_decay one_closed_store ''momentum_rsi_bb'' 20 50
     = Inr (NotEnoughData 1 70 (NeedForAnalysis 20))"
  by (simp add: detect_decay_def decay_rows_def List.map_filter_def trade_log_one_closed_store)

text \<open>
  Claim C2 says that the report carries the count still needed, and that it is "not
  enough data" whenever fewer than \<open>recent_window + baseline_window\<close> closed trades
  exist. The \<open>needed\<close> field of the report is the total
  \<open>recent_window + baseline_window\<close>, not the number of trades still missing: it is 70,
  not 69, with one closed trade and windows 20 and 50. And the second guard of
  \<open>detect_decay\<close> tests whether the baseline slice is empty: with two closed trades and
  windows 1 and 2 (three trades needed) the baseline holds one trade and the report is an
  evaluated one, with \<open>has_enough_data\<close> true and no \<open>needed\<close> field.
\<close>

theorem detect_decay_evaluates_partial_baseline:
  "map_sum id total_closed_trades (detect_decay one_closed_store ''momentum_rsi_bb'' 20 50)
       = Inr 1
   \<and> map_sum id needed (detect_decay one_closed_store ''momentum_rsi_bb'' 20 50)
       = Inr (Some (20 + 50))
   \<and> length (filter (\<lambda>r. is_closed r \<and> strategy r = ''momentum_rsi_bb'')
        (trade_log partial_baseline_store)) = 2
   \<and> (2::int) < 1 + 2
   \<and> map_sum id has_enough_data (detect_decay partial_baseline_store ''momentum_rsi_bb'' 1 2)
       = Inr True
   \<and> map_sum id needed (detect_decay partial_baseline_store ''momentum_rsi_bb'' 1 2)
       = Inr None"
  by (simp add: closed_count_partial_baseline_store detect_decay_partial_baseline_store
      detect_decay_one_closed_store)

theorem detect_decay_insufficient_data_witness:
  "detect_decay one_closed_store ''momentum_rsi_bb'' 20 50
     = Inr (NotEnoughData 1 70 (NeedForAnalysis 20))
   \<and> detect_decay one_closed_store ''momentum_rsi_bb'' 1 2
     = Inr (NotEnoughData 1 3 (NeedForComparison 3))"
proof -
  note c = closed_count_one_closed_store [symmetric]
  have a: "detect_decay one_closed_store ''momentum_rsi_bb'' 20 50
     = Inr (NotEnoughData 1 70 (NeedForAnalysis 20))"
    using detect_decay_insufficient_data [OF _ _ c, of 20 50] by simp
  have b: "detect_decay one_closed_store ''momentum_rsi_bb'' 1 2
     = Inr (NotEnoughData 1 3 (NeedForComparison 3))"
    using detect_decay_insufficient_data [OF _ _ c, of 1 2] by simp
  from a b show ?thesis by simp
qed

section \<open>Closing a trade in a store built by the recorder\<close>

lemma max_row_id_fold:
  "m \<le> fold (\<lambda>r m. max (row_id r) m) rows m
   \<and> (\<forall>r\<in>set rows. row_id r \<le> fold (\<lambda>r m. max (row_id r) m) rows m)"
proof (induction rows arbitrary: m)
  case Nil
  then show ?case by simp
next
  case (Cons a rows)
  from Cons.IH [of "max (row_id a) m"] show ?case by auto
qed

lemma max_row_id_ge: "r \<in> set rows \<Longrightarrow> row_id r \<le> max_row_id rows"
  using max_row_id_fold [of 0 rows] by (simp add: max_row_id_def)

lemma row_id_update_exit [simp]:
  "row_id (update_exit tid xt xp xr inds reg pa pp dur rc r) = row_id r"
  by (simp add: update_exit_def)

lemma trade_id_update_exit [simp]:
  "trade_id (update_exit tid xt xp xr inds reg pa pp dur rc r) = trade_id r"
  by (simp add: update_exit_def)

lemma apply_op_ids_increasing:
  assumes "ids_increasing (trade_log st)"
  shows "ids_increasing (trade_log (apply_op st op))"
proof (cases op)
  case (LogEntry tid p s et ep inds reg)
  obtain new where new: "trade_log (snd (log_entry st tid p s et ep inds reg)) = trade_log st @ [new]"
    "entry_fields new =
         ((Suc (max_row_id (trade_log st)), py_str tid, p, s, et, ep),
          (inds ''rsi'', inds ''tema'', inds ''bb_percent'', inds ''bb_width'', inds ''adx''),
          (reg ''volatility'', reg ''trend'', reg ''combined''))"
    using log_entry_trade_log by blast
  from new(2) have "row_id new = Suc (max_row_id (trade_log st))"
    by (simp add: entry_fields_def)
  moreover have "\<forall>r\<in>set (trade_log st). row_id r < Suc (max_row_id (trade_log st))"
    using max_row_id_ge by (auto simp add: less_Suc_eq_le)
  ultimately show ?thesis
    using assms LogEntry new(1)
    by (simp add: ids_increasing_def sorted_wrt_append)
next
  case (LogExit tid xt xp xr inds reg ep dur)
  from log_exit_trade_log [of st tid xt xp xr inds reg ep dur]
  show ?thesis
  proof (elim exE disjE)
    fix pa pp rc
    assume m: "trade_log (snd (log_exit st tid xt xp xr inds reg ep dur)) =
      map (update_exit (py_str tid) xt xp xr inds reg pa pp dur rc) (trade_log st)"
    show ?thesis using assms LogExit by (simp add: m ids_increasing_def sorted_wrt_map)
  next
    assume "snd (log_exit st tid xt xp xr inds reg ep dur) = st"
    with assms LogExit show ?thesis by simp
  qed
next
  case (LogRegimeSnapshot p ts reg inds)
  with assms show ?thesis by (simp add: log_regime_snapshot_def)
qed

lemma apply_op_open_rows_latest:
  assumes "open_rows_latest (trade_log st)"
  shows "open_rows_latest (trade_log (apply_op st op))"
proof (cases op)
  case (LogEntry tid p s et ep inds reg)
  obtain new where new: "trade_log (snd (log_entry st tid p s et ep inds reg)) = trade_log st @ [new]"
    "exit_unset new"
    using log_entry_trade_log by blast
  then have "exit_time new = None" by (simp add: exit_unset_def)
  with assms LogEntry new(1) show ?thesis
    by (simp add: open_rows_latest_def sorted_wrt_append)
next
  case (LogExit tid xt xp xr inds reg ep dur)
  from log_exit_trade_log [of st tid xt xp xr inds reg ep dur]
  show ?thesis
  proof (elim exE disjE)
    fix pa pp rc
    let ?f = "update_exit (py_str tid) xt xp xr inds reg pa pp dur rc"
    assume m: "trade_log (snd (log_exit st tid xt xp xr inds reg ep dur)) = map ?f (trade_log st)"
    have step: "trade_id (?f a) = trade_id (?f b) \<and> exit_time (?f a) = None \<longrightarrow> exit_time (?f b) = None"
      if P: "trade_id a = trade_id b \<and> exit_time a = None \<longrightarrow> exit_time b = None" for a b
    proof (intro impI, elim conjE)
      assume same: "trade_id (?f a) = trade_id (?f b)" and opn: "exit_time (?f a) = None"
      from opn have fa: "?f a = a" by (rule update_exit_closed)
      with opn have a_open: "exit_time a = None" by simp
      with fa update_exit_changes_iff [of "py_str tid" xt xp xr inds reg pa pp dur rc a]
      have "trade_id a \<noteq> py_str tid" by auto
      with same have "trade_id b \<noteq> py_str tid" by simp
      then have "?f b = b" by (simp add: update_exit_other)
      with P same a_open show "exit_time (?f b) = None" by simp
    qed
    have "sorted_wrt (\<lambda>a b. trade_id (?f a) = trade_id (?f b) \<and> exit_time (?f a) = None
              \<longrightarrow> exit_time (?f b) = None) (trade_log st)"
      using assms unfolding open_rows_latest_def
      by (rule sorted_wrt_mono_rel [rotated]) (use step in blast)
    then show ?thesis using LogExit by (simp add: m open_rows_latest_def sorted_wrt_map)
  next
    assume "snd (log_exit st tid xt xp xr inds reg ep dur) = st"
    with assms LogExit show ?thesis by simp
  qed
next
  case (LogRegimeSnapshot p ts reg inds)
  with assms show ?thesis by (simp add: log_regime_snapshot_def)
qed

lemma run_ops_order:
  "ids_increasing (trade_log st) \<Longrightarrow> open_rows_latest (trade_log st) \<Longrightarrow>
     ids_increasing (trade_log (run_ops st ops)) \<and> open_rows_latest (trade_log (run_ops st ops))"
  by (induction ops arbitrary: st)
     (simp_all add: apply_op_ids_increasing apply_op_open_rows_latest)

lemma latest_is_open:
  assumes inc: "ids_increasing rows" and ord: "open_rows_latest rows"
    and latest: "select_latest tid rows = Some latest"
    and r: "r \<in> set rows" "trade_id r = tid" "exit_time r = None"
  shows "exit_time latest = None"
proof -
  from select_latest_Some [OF latest]
  have l: "latest \<in> set rows" "trade_id latest = tid"
    "\<forall>r'\<in>set rows. trade_id r' = tid \<longrightarrow> row_id r' \<le> row_id latest" by auto
  from r(1) obtain i where i: "i < length rows" "rows ! i = r" by (auto simp add: in_set_conv_nth)
  from l(1) obtain j where j: "j < length rows" "rows ! j = latest"
    by (auto simp add: in_set_conv_nth)
  from l(3) r have le: "row_id r \<le> row_id latest" by auto
  consider "i = j" | "i < j" | "j < i" by linarith
  then show ?thesis
  proof cases
    case 1
    with i j r show ?thesis by simp
  next
    case 2
    from ord 2 j(1) have "trade_id (rows ! i) = trade_id (rows ! j) \<and> exit_time (rows ! i) = None
        \<longrightarrow> exit_time (rows ! j) = None"
      unfolding open_rows_latest_def by (simp add: sorted_wrt_iff_nth_less)
    with i j r l(2) show ?thesis by simp
  next
    case 3
    from inc 3 i(1) have "row_id (rows ! j) < row_id (rows ! i)"
      unfolding ids_increasing_def by (simp add: sorted_wrt_iff_nth_less)
    with i j le show ?thesis by simp
  qed
qed

text \<open>
  Claim C3 says that \<open>log_exit\<close> closes exactly one record, the latest open one. With two
  open records under one identifier the call closes both, and both get the
  \<open>regime_changed\<close> flag computed from the later record's entry label.
\<close>

theorem log_exit_closes_two_open_records:
  "map exit_time (trade_log two_open_store) = [None, None]
   \<and> map trade_id (trade_log two_open_store) = [''1'', ''1'']
   \<and> map exit_time (trade_log (snd (log_exit two_open_store (PStr ''1'') ''2026-02-23T13:00:00''
         105 ''roi'' (sample_indicators 65) (sample_regime ''high'' ''strong_trend'') 100 60)))
       = [Some ''2026-02-23T13:00:00'', Some ''2026-02-23T13:00:00'']
   \<and> map regime_changed (trade_log (snd (log_exit two_open_store (PStr ''1'')
         ''2026-02-23T13:00:00'' 105 ''roi'' (sample_indicators 65)
         (sample_regime ''high'' ''strong_trend'') 100 60)))
       = [Some 0, Some 0]"
  by (simp add: two_open_store_def trade_log_one_open_store log_entry_def log_exit_def
      update_exit_def max_row_id_def sample_regime_def)

text \<open>
  Claim C3, as the code has it. When an open record carries the identifier, \<open>log_exit\<close>
  returns true; every open record of that identifier gets the exit fields and the derived
  fields, and nothing else of it changes; \<open>regime_changed\<close> compares the supplied
  combined label with the entry label of the record of greatest key among those carrying
  the identifier; every other record, and the snapshot table, stay as they are. The
  number of records changed is the number of open records of that identifier: exactly
  one when there is exactly one. In a store built from the empty store by recorder
  operations the record of greatest key is itself open: it is the most recently inserted
  open record of the identifier.
\<close>

theorem log_exit_closes_open_records:
  assumes "r0 \<in> set (trade_log st)"
    and "trade_id r0 = py_str tid"
    and "exit_time r0 = None"
  shows "\<exists>latest.
           latest \<in> set (trade_log st) \<and> trade_id latest = py_str tid
         \<and> (\<forall>r\<in>set (trade_log st). trade_id r = py_str tid \<longrightarrow> row_id r \<le> row_id latest)
         \<and> fst (log_exit st tid xt xp xr inds reg ep dur) = True
         \<and> regime_snapshots (snd (log_exit st tid xt xp xr inds reg ep dur)) = regime_snapshots st
         \<and> length (trade_log (snd (log_exit st tid xt xp xr inds reg ep dur)))
             = length (trade_log st)
         \<and> (\<forall>i<length (trade_log st).
               trade_log (snd (log_exit st tid xt xp xr inds reg ep dur)) ! i =
                 (if trade_id (trade_log st ! i) = py_str tid \<and> exit_time (trade_log st ! i) = None
                  then (trade_log st ! i)
                         \<lparr>exit_time := Some xt,
                          exit_price := Some xp,
                          exit_reason := Some xr,
                          exit_rsi := inds ''rsi'',
                          exit_tema := inds ''tema'',
                          exit_bb_percent := inds ''bb_percent'',
                          exit_bb_width := inds ''bb_width'',
                          exit_adx := inds ''adx'',
                          exit_volatility_regime := reg ''volatility'',
                          exit_trend_regime := reg ''trend'',
                          exit_regime := reg ''combined'',
                          pnl_absolute := Some (xp - ep),
                          pnl_percent := Some (if ep = 0 then 0 else (xp - ep) / ep * 100),
                          duration_minutes := Some dur,
                          regime_changed :=
                            Some (if entry_regime latest \<noteq> reg ''combined'' then 1 else 0)\<rparr>
                  else trade_log st ! i))
         \<and> length (filter (\<lambda>(r, r'). r \<noteq> r')
               (zip (trade_log st) (trade_log (snd (log_exit st tid xt xp xr inds reg ep dur)))))
             = length (filter (\<lambda>r. trade_id r = py_str tid \<and> exit_time r = None) (trade_log st))
         \<and> (\<forall>ops. st = run_ops empty_store ops \<longrightarrow> exit_time latest = None)"
proof -
  from assms(1,2) obtain latest where
    latest: "select_latest (py_str tid) (trade_log st) = Some latest"
    using open_row_found by blast
  note found = log_exit_found [OF latest, of xt xp xr inds reg ep dur]
  have max: "latest \<in> set (trade_log st) \<and> trade_id latest = py_str tid
      \<and> (\<forall>r\<in>set (trade_log st). trade_id r = py_str tid \<longrightarrow> row_id r \<le> row_id latest)"
    using select_latest_Some [OF latest] .
  have ret: "fst (log_exit st tid xt xp xr inds reg ep dur) = True"
    by (simp add: found)
  have snaps: "regime_snapshots (snd (log_exit st tid xt xp xr inds reg ep dur))
      = regime_snapshots st"
    by (simp add: found)
  have len: "length (trade_log (snd (log_exit st tid xt xp xr inds reg ep dur)))
      = length (trade_log st)"
    by (simp add: found)
  have rows: "\<forall>i<length (trade_log st).
      trade_log (snd (log_exit st tid xt xp xr inds reg ep dur)) ! i =
        (if trade_id (trade_log st ! i) = py_str tid \<and> exit_time (trade_log st ! i) = None
         then (trade_log st ! i)
                \<lparr>exit_time := Some xt,
                 exit_price := Some xp,
                 exit_reason := Some xr,
                 exit_rsi := inds ''rsi'',
                 exit_tema := inds ''tema'',
                 exit_bb_percent := inds ''bb_percent'',
                 exit_bb_width := inds ''bb_width'',
                 exit_adx := inds ''adx'',
                 exit_volatility_regime := reg ''volatility'',
                 exit_trend_regime := reg ''trend'',
                 exit_regime := reg ''combined'',
                 pnl_absolute := Some (xp - ep),
                 pnl_percent := Some (if ep = 0 then 0 else (xp - ep) / ep * 100),
                 duration_minutes := Some dur,
                 regime_changed :=
                   Some (if entry_regime latest \<noteq> reg ''combined'' then 1 else 0)\<rparr>
         else trade_log st ! i)"
    by (simp add: found update_exit_def)
  have cnt: "length (filter (\<lambda>(r, r'). r \<noteq> r')
        (zip (trade_log st) (trade_log (snd (log_exit st tid xt xp xr inds reg ep dur)))))
      = length (filter (\<lambda>r. trade_id r = py_str tid \<and> exit_time r = None) (trade_log st))"
    by (simp add: found changed_count update_exit_changes_iff)
  have reach: "\<forall>ops. st = run_ops empty_store ops \<longrightarrow> exit_time latest = None"
  proof (intro allI impI)
    fix ops
    assume st: "st = run_ops empty_store ops"
    have "ids_increasing (trade_log empty_store)" "open_rows_latest (trade_log empty_store)"
      by (simp_all add: ids_increasing_def open_rows_latest_def empty_store_def)
    from run_ops_order [OF this, of ops]
    have "ids_increasing (trade_log st)" "open_rows_latest (trade_log st)"
      by (simp_all add: st)
    from latest_is_open [OF this latest assms] show "exit_time latest = None" .
  qed
  from max ret snaps len rows cnt reach show ?thesis by blast
qed

theorem log_exit_closes_open_records_witness:
  "one_open_store = run_ops empty_store [sample_entry_op]
   \<and> trade_log one_open_store ! 0 \<in> set (trade_log one_open_store)
   \<and> trade_id (trade_log one_open_store ! 0) = py_str (PStr ''1'')
   \<and> exit_time (trade_log one_open_store ! 0) = None
   \<and> fst (log_exit one_open_store (PStr ''1'') ''2026-02-23T13:00:00'' 105 ''roi''
            (sample_indicators 65) (sample_regime ''high'' ''strong_trend'') 100 60) = True
   \<and> length (filter (\<lambda>(r, r'). r \<noteq> r')
        (zip (trade_log one_open_store)
           (trade_log (snd (log_exit one_open_store (PStr ''1'') ''2026-02-23T13:00:00'' 105
              ''roi'' (sample_indicators 65) (sample_regime ''high'' ''strong_trend'') 100 60)))))
      = 1"
  using log_exit_closes_open_records [of "trade_log one_open_store ! 0" one_open_store
      "PStr ''1''" "''2026-02-23T13:00:00''" 105 "''roi''" "sample_indicators 65"
      "sample_regime ''high'' ''strong_trend''" 100 60]
    run_sample_entry
  by (auto simp add: trade_log_one_open_store)

end
